theory Spec2Isabelle
  imports Complex_Main "HOL-Library.Word"
begin

section \<open>The CID calculator of \<open>src/App.tsx\<close>\<close>

text \<open>
  The component \<open>HeliaApp\<close> keeps five pieces of React state and changes them in three
  places: the effect that creates the Helia instance, the file-selection handler and
  \<open>calculateCIDs\<close>. Each of them is modelled as a function from the state before to the
  state after: the \<open>set...\<close> calls are the only writes, and the values read
  (\<open>files\<close>, \<open>heliaInstance\<close>) are the ones captured when the callback was created.

  The hashing backend (\<open>helia\<close>, \<open>@helia/unixfs\<close>) is a library the component calls; it is a
  parameter of the model. A promise that rejects and a generator that throws are values
  of a sum type, the error being the text that \<open>`${err}`\<close> renders.
\<close>

subsection \<open>JavaScript helpers\<close>

text \<open>\<open>a || b\<close> on strings: the empty string is falsy.\<close>

definition or_str :: "string \<Rightarrow> string \<Rightarrow> string" where
  "or_str a b = (if a \<noteq> [] then a else b)"

text \<open>\<open>a || b\<close> where \<open>a\<close> may be \<open>undefined\<close>: \<open>undefined\<close> and the empty string are falsy.\<close>

definition or_undefined :: "string option \<Rightarrow> string \<Rightarrow> string" where
  "or_undefined a b = (case a of None \<Rightarrow> b | Some t \<Rightarrow> or_str t b)"

text \<open>\<open>s.includes(sub)\<close>: \<open>sub\<close> occurs in \<open>s\<close> as a contiguous run.\<close>

fun includes_str :: "string \<Rightarrow> string \<Rightarrow> bool" where
  "includes_str [] sub = (sub = [])"
| "includes_str (c # cs) sub = (take (length sub) (c # cs) = sub \<or> includes_str cs sub)"

text \<open>
  A promise that settles: the moment it does, and whether it rejects (\<open>Inl\<close>, with the
  reason) or fulfils (\<open>Inr\<close>, with the value).
\<close>

type_synonym 'a promise = "nat \<times> (string + 'a)"

text \<open>
  \<open>Promise.all\<close>: the values in list order when all promises fulfil, otherwise the
  reason of the rejection that comes first in time (of two at the same moment, the one
  earlier in the list).
\<close>

fun firstRejection :: "'a promise list \<Rightarrow> (nat \<times> string) option" where
  "firstRejection [] = None"
| "firstRejection ((t, Inl err) # ps) =
     (case firstRejection ps of
        None \<Rightarrow> Some (t, err)
      | Some (t', err') \<Rightarrow> if t' < t then Some (t', err') else Some (t, err))"
| "firstRejection ((t, Inr v) # ps) = firstRejection ps"

fun fulfilled :: "'a promise list \<Rightarrow> 'a list" where
  "fulfilled [] = []"
| "fulfilled ((t, Inr v) # ps) = v # fulfilled ps"
| "fulfilled ((t, Inl err) # ps) = fulfilled ps"

definition promiseAll :: "'a promise list \<Rightarrow> string + 'a list" where
  "promiseAll ps =
     (case firstRejection ps of
        Some (t, err) \<Rightarrow> Inl err
      | None \<Rightarrow> Inr (fulfilled ps))"

subsection \<open>Data\<close>

type_synonym byte = "8 word"

text \<open>
  A browser \<open>File\<close>: \<open>arrayBuffer()\<close> resolves to the bytes or rejects, at the moment
  \<open>settledAt\<close>.
\<close>

record jsFile =
  webkitRelativePath :: string
  name :: string
  arrayBuffer :: "string + byte list"
  settledAt :: nat

text \<open>The objects built at lines 74-77.\<close>

record fileEntry =
  path :: string
  content :: "byte list"

text \<open>A CID object is known by the text \<open>toString()\<close> gives.\<close>

datatype CID = CID (toString: string)

record chunkerOpts =
  maxChunkSize :: nat

record options =
  cidVersion :: nat
  rawLeaves :: bool
  trickle :: bool
  chunkerOptions :: chunkerOpts
  wrapWithDirectory :: bool

text \<open>
  What \<open>fs.addAll\<close> yields. The fields read at lines 120-123 are \<open>path\<close>, \<open>cid\<close>,
  \<open>size\<close> and \<open>type\<close>; \<open>type\<close> may be missing.
\<close>

record importEntry =
  e_path :: string
  e_cid :: CID
  e_size :: nat
  e_type :: "string option"

text \<open>The objects pushed on \<open>importResults\<close> (lines 106-111 and 119-124).\<close>

record result =
  r_path :: string
  r_cid :: string
  r_size :: nat
  r_type :: string

text \<open>
  The two operations of \<open>fs\<close> that are called. \<open>addBytes\<close> resolves to a CID or rejects.
  \<open>addAll\<close> is an asynchronous generator: it yields a finite sequence of entries and
  then either ends or throws.
\<close>

record unixfs =
  addBytes :: "byte list \<Rightarrow> options \<Rightarrow> string + CID"
  addAll :: "fileEntry list \<Rightarrow> options \<Rightarrow> importEntry list \<times> string option"

text \<open>The object \<open>{ helia, fs }\<close> of line 28; only \<open>fs\<close> is read afterwards.\<close>

record heliaInst =
  fs :: unixfs

record state =
  files :: "jsFile list"
  results :: "result list"
  isProcessing :: bool
  error :: string
  heliaInstance :: "heliaInst option"

definition initialState :: state where
  "initialState =
     \<lparr>files = [], results = [], isProcessing = False, error = [], heliaInstance = None\<rparr>"

subsection \<open>Initialisation and file selection\<close>

text \<open>Lines 22-34; the argument is the outcome of \<open>createHelia()\<close> and \<open>unixfs(helia)\<close>.\<close>

definition initHelia :: "string + heliaInst \<Rightarrow> state \<Rightarrow> state" where
  "initHelia created s =
     (case created of
        Inr inst \<Rightarrow> s\<lparr>heliaInstance := Some inst\<rparr>
      | Inl err \<Rightarrow> s\<lparr>error := ''Failed to initialize Helia: '' @ err\<rparr>)"

text \<open>Lines 40-45.\<close>

definition handleFileSelection :: "jsFile list \<Rightarrow> state \<Rightarrow> state" where
  "handleFileSelection selectedFiles s =
     s\<lparr>files := selectedFiles, results := [], error := []\<rparr>"

subsection \<open>\<open>calculateCIDs\<close>\<close>

text \<open>Lines 71-78, one file.\<close>

definition readEntry :: "jsFile \<Rightarrow> fileEntry promise" where
  "readEntry file =
     (settledAt file,
      case arrayBuffer file of
        Inl err \<Rightarrow> Inl err
      | Inr bytes \<Rightarrow>
          Inr \<lparr>path = or_str (webkitRelativePath file) (name file), content = bytes\<rparr>)"

text \<open>Lines 87-98.\<close>

definition kuboCompatibleOptions :: "fileEntry list \<Rightarrow> options" where
  "kuboCompatibleOptions fileEntries =
     \<lparr>cidVersion = 1,
      rawLeaves = True,
      trickle = False,
      chunkerOptions = \<lparr>maxChunkSize = 262144\<rparr>,
      wrapWithDirectory =
        (length fileEntries > 1 \<or> list_ex (\<lambda>f. includes_str (path f) ''/'') fileEntries)\<rparr>"

text \<open>Lines 119-124.\<close>

definition toResult :: "importEntry \<Rightarrow> result" where
  "toResult entry =
     \<lparr>r_path = e_path entry,
      r_cid = toString (e_cid entry),
      r_size = e_size entry,
      r_type = or_undefined (e_type entry) ''file''\<rparr>"

text \<open>
  Lines 100-127: the value of \<open>importResults\<close> when line 129 is reached, or the error
  thrown on the way. Entries yielded by \<open>addAll\<close> before it throws are pushed on the
  local array only, which is dropped with the exception.
\<close>

definition importAll :: "unixfs \<Rightarrow> fileEntry list \<Rightarrow> options \<Rightarrow> string + result list" where
  "importAll ufs fileEntries opts =
     (if length fileEntries = 1 \<and> \<not> includes_str (path (fileEntries ! 0)) ''/'' then
        (let entry = fileEntries ! 0 in
         case addBytes ufs (content entry) opts of
           Inl err \<Rightarrow> Inl err
         | Inr cid \<Rightarrow>
             Inr [\<lparr>r_path = path entry,
                   r_cid = toString cid,
                   r_size = length (content entry),
                   r_type = ''file''\<rparr>])
      else
        (case addAll ufs fileEntries opts of
           (yielded, Some err) \<Rightarrow> Inl err
         | (yielded, None) \<Rightarrow> Inr (map toResult yielded)))"

text \<open>
  The body of the \<open>try\<close> block (lines 59-129): \<open>Inl\<close> is an exception reaching the
  \<open>catch\<close>, \<open>Inr\<close> the state when the block is left by the \<open>return\<close> of line 64 or at
  its end.
\<close>

definition calculateCIDs_try :: "state \<Rightarrow> string + state" where
  "calculateCIDs_try s =
     (case heliaInstance s of
        None \<Rightarrow>
          Inr (s\<lparr>error := ''Helia is still initializing. Please wait a moment and try again.''\<rparr>)
      | Some inst \<Rightarrow>
          (case promiseAll (map readEntry (files s)) of
             Inl err \<Rightarrow> Inl err
           | Inr fileEntries \<Rightarrow>
               (case importAll (fs inst) fileEntries (kuboCompatibleOptions fileEntries) of
                  Inl err \<Rightarrow> Inl err
                | Inr importResults \<Rightarrow> Inr (s\<lparr>results := importResults\<rparr>))))"

text \<open>Lines 48-136: the check for no files, the three resets, \<open>try\<close>, \<open>catch\<close>, \<open>finally\<close>.\<close>

definition calculateCIDs :: "state \<Rightarrow> state" where
  "calculateCIDs s =
     (if length (files s) = 0 then s\<lparr>error := ''Please select files first''\<rparr>
      else
        (let s1 = s\<lparr>isProcessing := True, error := [], results := []\<rparr>;
             s2 = (case calculateCIDs_try s1 of
                     Inr s' \<Rightarrow> s'
                   | Inl err \<Rightarrow> s1\<lparr>error := ''Error calculating CIDs: '' @ err\<rparr>)
         in s2\<lparr>isProcessing := False\<rparr>))"

subsection \<open>The root panel\<close>

text \<open>
  Lines 341-349: shown only for more than one record; the CID is that of the first
  record with an empty path or of type \<open>directory\<close>, and that of the last record when
  there is no such record or its CID text is empty.
\<close>

definition isRootCandidate :: "result \<Rightarrow> bool" where
  "isRootCandidate r = (r_path r = [] \<or> r_type r = ''directory'')"

definition rootDirectoryCid :: "result list \<Rightarrow> string option" where
  "rootDirectoryCid rs =
     (if length rs > 1 then
        Some (or_undefined (map_option r_cid (find isRootCandidate rs)) (r_cid (last rs)))
      else None)"

subsection \<open>The chunker\<close>

text \<open>
  Modelled from the spec: the Chunker (spec 4.1 and the Chunk of the data model) is
  not in \<open>src/App.tsx\<close>, which only hands \<open>maxChunkSize\<close> to the backend. The
  spec's words: a byte stream is split into fixed-size blocks that cover it exactly
  once, in order, with no overlap and no gap; every chunk has at most the chunk size,
  the final one may be shorter or equal; empty input yields a single empty chunk. A
  chunk size of 0, about which the spec says nothing, returns the input as one chunk.
\<close>

function chunker :: "nat \<Rightarrow> byte list \<Rightarrow> byte list list" where
  "chunker chunkSize bytes =
     (if chunkSize = 0 \<or> length bytes \<le> chunkSize then [bytes]
      else take chunkSize bytes # chunker chunkSize (drop chunkSize bytes))"
  by pat_completeness auto
termination
  by (relation "measure (\<lambda>(chunkSize, bytes). length bytes)") auto

declare chunker.simps [simp del]

subsection \<open>Sample inputs\<close>

text \<open>Files as the directory picker and the plain picker deliver them.\<close>

definition fileA :: jsFile where
  "fileA =
     \<lparr>webkitRelativePath = ''dir/a.txt'', name = ''a.txt'', arrayBuffer = Inr [1, 2, 3],
      settledAt = 2\<rparr>"

definition fileB :: jsFile where
  "fileB =
     \<lparr>webkitRelativePath = ''dir/b.txt'', name = ''b.txt'', arrayBuffer = Inr [4, 5],
      settledAt = 1\<rparr>"


definition fileUnreadable :: jsFile where
  "fileUnreadable =
     \<lparr>webkitRelativePath = [], name = ''gone.txt'', arrayBuffer = Inl ''NotReadableError'',
      settledAt = 3\<rparr>"

definition fileLocked :: jsFile where
  "fileLocked =
     \<lparr>webkitRelativePath = [], name = ''locked.txt'', arrayBuffer = Inl ''NotAllowedError'',
      settledAt = 1\<rparr>"

text \<open>
  A backend for the tree \<open>dir/\<close>: \<open>addAll\<close> yields one entry per file, then the
  directory \<open>dir\<close>, then the wrapping root with the empty path. The two arguments are
  the \<open>type\<close> field it reports for files and for directories.
\<close>

definition entryOf :: "string option \<Rightarrow> fileEntry \<Rightarrow> importEntry" where
  "entryOf fileType f =
     \<lparr>e_path = path f, e_cid = CID (''cid:'' @ path f), e_size = length (content f),
      e_type = fileType\<rparr>"

definition treeFs :: "string option \<Rightarrow> string option \<Rightarrow> unixfs" where
  "treeFs fileType dirType =
     \<lparr>addBytes = (\<lambda>bytes opts. Inr (CID ''cid:bytes'')),
      addAll = (\<lambda>es opts.
        (map (entryOf fileType) es @
         [\<lparr>e_path = ''dir'', e_cid = CID ''cid:dir'',
           e_size = sum_list (map (\<lambda>f. length (content f)) es), e_type = dirType\<rparr>,
          \<lparr>e_path = [], e_cid = CID ''cid:root'',
           e_size = sum_list (map (\<lambda>f. length (content f)) es), e_type = dirType\<rparr>],
         None))\<rparr>"

text \<open>The same backend, except that it refuses to import without directory wrapping.\<close>

definition wrapOnlyFs :: unixfs where
  "wrapOnlyFs =
     \<lparr>addBytes = (\<lambda>bytes opts.
        if wrapWithDirectory opts then Inr (CID ''cid:bytes'') else Inl ''Error: no wrapping''),
      addAll = (\<lambda>es opts.
        if wrapWithDirectory opts then addAll (treeFs None None) es opts
        else ([], Some ''Error: no wrapping''))\<rparr>"

text \<open>A backend whose store fails: \<open>addAll\<close> yields the first entry and then throws.\<close>

definition failingFs :: unixfs where
  "failingFs =
     \<lparr>addBytes = (\<lambda>bytes opts. Inl ''Error: put failed''),
      addAll = (\<lambda>es opts. (map (entryOf None) (take 1 es), Some ''Error: put failed''))\<rparr>"

definition stateWith :: "jsFile list \<Rightarrow> unixfs option \<Rightarrow> state" where
  "stateWith selected backend =
     \<lparr>files = selected, results = [], isProcessing = False, error = [],
      heliaInstance = map_option (\<lambda>u. \<lparr>fs = u\<rparr>) backend\<rparr>"

definition entriesAB :: "fileEntry list" where
  "entriesAB =
     [\<lparr>path = ''dir/a.txt'', content = [1, 2, 3]\<rparr>, \<lparr>path = ''dir/b.txt'', content = [4, 5]\<rparr>]"

section \<open>Properties\<close>

subsection \<open>Helper facts\<close>

lemma includes_str_slash: "includes_str p ''/'' = (CHR ''/'' \<in> set p)"
  by (induction p) auto

lemma wrap_eq:
  "wrapWithDirectory (kuboCompatibleOptions es) =
     (length es > 1 \<or> (\<exists>f \<in> set es. CHR ''/'' \<in> set (path f)))"
  by (simp add: kuboCompatibleOptions_def list_ex_iff includes_str_slash)

lemma importAll_cong:
  assumes "\<And>bytes. addBytes u bytes opts = addBytes u' bytes opts"
    and "\<And>es. addAll u es opts = addAll u' es opts"
  shows "importAll u es opts = importAll u' es opts"
  using assms by (simp add: importAll_def)

lemma calc_nonempty:
  "files s \<noteq> [] \<Longrightarrow>
   calculateCIDs s =
     (case calculateCIDs_try (s\<lparr>isProcessing := True, error := [], results := []\<rparr>) of
        Inr s' \<Rightarrow> s'\<lparr>isProcessing := False\<rparr>
      | Inl err \<Rightarrow> s\<lparr>isProcessing := False, error := ''Error calculating CIDs: '' @ err, results := []\<rparr>)"
  by (simp add: calculateCIDs_def Let_def split: sum.splits)

lemma calc_not_ready:
  "files s \<noteq> [] \<Longrightarrow> heliaInstance s = None \<Longrightarrow>
   calculateCIDs s =
     s\<lparr>isProcessing := False,
       error := ''Helia is still initializing. Please wait a moment and try again.'',
       results := []\<rparr>"
  by (simp add: calc_nonempty calculateCIDs_try_def)

lemma calc_read_error:
  "files s \<noteq> [] \<Longrightarrow> heliaInstance s = Some inst \<Longrightarrow>
   promiseAll (map readEntry (files s)) = Inl err \<Longrightarrow>
   calculateCIDs s =
     s\<lparr>isProcessing := False, error := ''Error calculating CIDs: '' @ err, results := []\<rparr>"
  by (simp add: calc_nonempty calculateCIDs_try_def)

lemma calc_import_error:
  "files s \<noteq> [] \<Longrightarrow> heliaInstance s = Some inst \<Longrightarrow>
   promiseAll (map readEntry (files s)) = Inr es \<Longrightarrow>
   importAll (fs inst) es (kuboCompatibleOptions es) = Inl err \<Longrightarrow>
   calculateCIDs s =
     s\<lparr>isProcessing := False, error := ''Error calculating CIDs: '' @ err, results := []\<rparr>"
  by (simp add: calc_nonempty calculateCIDs_try_def)

lemma calc_success:
  "files s \<noteq> [] \<Longrightarrow> heliaInstance s = Some inst \<Longrightarrow>
   promiseAll (map readEntry (files s)) = Inr es \<Longrightarrow>
   importAll (fs inst) es (kuboCompatibleOptions es) = Inr rs \<Longrightarrow>
   calculateCIDs s = s\<lparr>isProcessing := False, error := [], results := rs\<rparr>"
  by (simp add: calc_nonempty calculateCIDs_try_def)

lemma promiseAll_Nil [simp]: "promiseAll [] = Inr []"
  by (simp add: promiseAll_def)

lemma fulfilled_length: "firstRejection ps = None \<Longrightarrow> length (fulfilled ps) = length ps"
  by (induction ps rule: firstRejection.induct) (auto split: option.splits if_splits)

lemma promiseAll_length: "promiseAll ps = Inr vs \<Longrightarrow> length vs = length ps"
  by (auto simp: promiseAll_def fulfilled_length split: option.splits)

lemma find_map_eq: "find P (map f xs) = map_option f (find (\<lambda>x. P (f x)) xs)"
  by (induction xs) auto

lemma isRootCandidate_toResult:
  "isRootCandidate (toResult e) = (e_path e = [] \<or> e_type e = Some ''directory'')"
  by (auto simp: isRootCandidate_def toResult_def or_undefined_def or_str_def split: option.splits)

lemma r_cid_toResult: "r_cid (toResult e) = toString (e_cid e)"
  by (simp add: toResult_def)

lemma rootDirectoryCid_map:
  "rootDirectoryCid (map toResult ys) =
     (if length ys > 1 then
        Some (case find (\<lambda>e. e_path e = [] \<or> e_type e = Some ''directory'') ys of
                None \<Rightarrow> toString (e_cid (last ys))
              | Some e \<Rightarrow> if toString (e_cid e) \<noteq> [] then toString (e_cid e)
                          else toString (e_cid (last ys)))
      else None)"
proof (cases "length ys > 1")
  case True
  then have ne: "ys \<noteq> []" by auto
  have f: "find isRootCandidate (map toResult ys) =
      map_option toResult (find (\<lambda>e. e_path e = [] \<or> e_type e = Some ''directory'') ys)"
    by (simp only: find_map_eq isRootCandidate_toResult)
  have l: "r_cid (last (map toResult ys)) = toString (e_cid (last ys))"
    by (simp only: last_map [OF ne] r_cid_toResult)
  show ?thesis
    unfolding rootDirectoryCid_def f l using True
    by (cases "find (\<lambda>e. e_path e = [] \<or> e_type e = Some ''directory'') ys")
       (simp_all add: or_undefined_def or_str_def r_cid_toResult)
next
  case False
  then show ?thesis by (simp add: rootDirectoryCid_def)
qed

lemma multi_importAll:
  assumes "length es > 1 \<or> (\<exists>f \<in> set es. CHR ''/'' \<in> set (path f))"
  shows "importAll u es opts =
     (case addAll u es opts of (yielded, Some err) \<Rightarrow> Inl err
      | (yielded, None) \<Rightarrow> Inr (map toResult yielded))"
proof -
  have "(length es = 1 \<and> \<not> includes_str (path (es ! 0)) ''/'') = False"
    using assms by (cases es) (auto simp: includes_str_slash)
  then show ?thesis by (simp only: importAll_def if_False)
qed

lemma calc_multi_success:
  fixes s :: state
  assumes "heliaInstance s = Some inst"
    and "promiseAll (map readEntry (files s)) = Inr es"
    and "length es > 1 \<or> (\<exists>f \<in> set es. CHR ''/'' \<in> set (path f))"
    and "addAll (fs inst) es (kuboCompatibleOptions es) = (yielded, None)"
  shows "calculateCIDs s = s\<lparr>isProcessing := False, error := [], results := map toResult yielded\<rparr>"
proof -
  have "files s \<noteq> []" using assms(2,3) by auto
  moreover have "importAll (fs inst) es (kuboCompatibleOptions es) = Inr (map toResult yielded)"
    using assms(3,4) by (simp add: multi_importAll)
  ultimately show ?thesis using assms(1,2) by (simp add: calc_success)
qed

lemma multi_entry_output:
  fixes s :: state
  assumes "heliaInstance s = Some inst"
    and "promiseAll (map readEntry (files s)) = Inr es"
    and "length es > 1 \<or> (\<exists>f \<in> set es. CHR ''/'' \<in> set (path f))"
    and "addAll (fs inst) es (kuboCompatibleOptions es) = (yielded, None)"
  shows "results (calculateCIDs s) = map toResult yielded
       \<and> wrapWithDirectory (kuboCompatibleOptions es)
       \<and> rootDirectoryCid (results (calculateCIDs s)) =
           (if length yielded > 1 then
              Some (case find (\<lambda>e. e_path e = [] \<or> e_type e = Some ''directory'') yielded of
                      None \<Rightarrow> toString (e_cid (last yielded))
                    | Some e \<Rightarrow> if toString (e_cid e) \<noteq> [] then toString (e_cid e)
                                else toString (e_cid (last yielded)))
            else None)"
proof -
  have r: "results (calculateCIDs s) = map toResult yielded"
    using calc_multi_success [OF assms] by simp
  have w: "wrapWithDirectory (kuboCompatibleOptions es)"
    using assms(3) by (simp only: wrap_eq)
  show ?thesis unfolding r using w by (simp only: rootDirectoryCid_map simp_thms)
qed

subsection \<open>The chunker of the spec\<close>

lemma chunker_count:
  "0 < n \<Longrightarrow> length (chunker n bs) = Suc ((length bs - 1) div n)"
proof (induction n bs rule: chunker.induct)
  case (1 n bs)
  show ?case
  proof (cases "length bs \<le> n")
    case True
    then have "length bs - 1 < n" using "1.prems" by arith
    then show ?thesis using True
      by (subst chunker.simps) simp
  next
    case False
    then have big: "n < length bs" by simp
    have "length (chunker n bs) = Suc (length (chunker n (drop n bs)))"
      using False "1.prems" by (subst chunker.simps) simp
    also have "\<dots> = Suc (Suc ((length bs - n - 1) div n))"
      using "1.IH" False "1.prems" by simp
    also have "Suc ((length bs - n - 1) div n) = (length bs - n - 1 + n) div n"
      using "1.prems" by simp
    also have "length bs - n - 1 + n = length bs - 1"
      using big by arith
    finally show ?thesis .
  qed
qed

lemma int_ceil:
  assumes "0 < (b::int)" shows "- (- a div b) = (a + b - 1) div b"
proof -
  define q where "q = (a + b - 1) div b"
  define r where "r = (a + b - 1) mod b"
  have eq: "a + b - 1 = b * q + r" by (simp add: q_def r_def)
  have r: "0 \<le> r" "r < b" using assms by (simp_all add: r_def)
  have "- a = b * (- q) + (b - 1 - r)" using eq by (simp add: algebra_simps)
  then have "- a div b = - q"
    using r int_div_pos_eq [of "- a" b "- q" "b - 1 - r"] by simp
  then show ?thesis by (simp add: q_def)
qed

lemma ceil_nat: "0 < n \<Longrightarrow> nat \<lceil>real L / real n\<rceil> = (L + n - 1) div n"
proof -
  assume n: "0 < n"
  have "\<lceil>real L / real n\<rceil> = \<lceil>real_of_int (int L) / real_of_int (int n)\<rceil>" by simp
  also have "\<dots> = - (- int L div int n)" by (rule ceiling_divide_eq_div)
  also have "\<dots> = (int L + int n - 1) div int n"
    using n by (simp add: int_ceil)
  also have "\<dots> = int ((L + n - 1) div n)"
    using n by (simp add: zdiv_int)
  finally show ?thesis by simp
qed

lemma chunker_count_ceil:
  assumes "0 < n"
  shows "length (chunker n bs) = (if length bs = 0 then 1 else nat \<lceil>real (length bs) / real n\<rceil>)"
proof (cases "length bs = 0")
  case True
  then show ?thesis using assms by (simp add: chunker_count)
next
  case False
  then have "Suc ((length bs - 1) div n) = (length bs - 1 + n) div n"
    using assms by simp
  also have "length bs - 1 + n = length bs + n - 1" using False by arith
  finally show ?thesis using False assms by (simp add: chunker_count ceil_nat)
qed

lemma chunker_concat: "concat (chunker n bs) = bs"
  by (induction n bs rule: chunker.induct) (subst chunker.simps, auto)

lemma chunker_bound: "0 < n \<Longrightarrow> c \<in> set (chunker n bs) \<Longrightarrow> length c \<le> n"
  apply (induction n bs rule: chunker.induct)
  apply (subst (asm) (2) chunker.simps)
  apply (auto split: if_splits)
  done

subsection \<open>What a run publishes\<close>

lemma single_importAll:
  assumes "CHR ''/'' \<notin> set (path e)"
  shows "importAll u [e] opts =
     (case addBytes u (content e) opts of
        Inl err \<Rightarrow> Inl err
      | Inr cid \<Rightarrow> Inr [\<lparr>r_path = path e, r_cid = toString cid,
                          r_size = length (content e), r_type = ''file''\<rparr>])"
  using assms by (simp add: importAll_def includes_str_slash)

subsection \<open>Samples evaluated\<close>

lemma read_AB: "promiseAll (map readEntry [fileA, fileB]) = Inr entriesAB"
  by (simp add: promiseAll_def readEntry_def fileA_def fileB_def entriesAB_def or_str_def)

text \<open>Of two reads that fail, the one that fails first in time gives the reason.\<close>

lemma read_two_failures:
  "promiseAll (map readEntry [fileUnreadable, fileLocked]) = Inl ''NotAllowedError''"
  by (simp add: promiseAll_def readEntry_def fileUnreadable_def fileLocked_def)

lemma wrap_AB: "wrapWithDirectory (kuboCompatibleOptions entriesAB)"
  by (simp add: wrap_eq entriesAB_def)

lemma addAll_AB:
  "addAll (treeFs ft dt) entriesAB opts =
     ([\<lparr>e_path = ''dir/a.txt'', e_cid = CID ''cid:dir/a.txt'', e_size = 3, e_type = ft\<rparr>,
       \<lparr>e_path = ''dir/b.txt'', e_cid = CID ''cid:dir/b.txt'', e_size = 2, e_type = ft\<rparr>,
       \<lparr>e_path = ''dir'', e_cid = CID ''cid:dir'', e_size = 5, e_type = dt\<rparr>,
       \<lparr>e_path = [], e_cid = CID ''cid:root'', e_size = 5, e_type = dt\<rparr>], None)"
  by (simp add: treeFs_def entriesAB_def entryOf_def)

lemma run_AB:
  "calculateCIDs (stateWith [fileA, fileB] (Some (treeFs ft dt))) =
     (stateWith [fileA, fileB] (Some (treeFs ft dt)))
       \<lparr>isProcessing := False, error := [],
        results := map toResult (fst (addAll (treeFs ft dt) entriesAB (kuboCompatibleOptions entriesAB)))\<rparr>"
proof -
  let ?s = "stateWith [fileA, fileB] (Some (treeFs ft dt))"
  have 1: "heliaInstance ?s = Some \<lparr>fs = treeFs ft dt\<rparr>" by (simp add: stateWith_def)
  have 2: "promiseAll (map readEntry (files ?s)) = Inr entriesAB"
    using read_AB by (simp add: stateWith_def)
  have 3: "length entriesAB > 1 \<or> (\<exists>f \<in> set entriesAB. CHR ''/'' \<in> set (path f))"
    by (simp add: entriesAB_def)
  have 4: "addAll (fs \<lparr>fs = treeFs ft dt\<rparr>) entriesAB (kuboCompatibleOptions entriesAB) =
      (fst (addAll (treeFs ft dt) entriesAB (kuboCompatibleOptions entriesAB)), None)"
    by (simp add: addAll_AB)
  show ?thesis by (rule calc_multi_success [OF 1 2 3 4])
qed

lemma run_AB_untyped:
  "results (calculateCIDs (stateWith [fileA, fileB] (Some (treeFs None None)))) =
     [\<lparr>r_path = ''dir/a.txt'', r_cid = ''cid:dir/a.txt'', r_size = 3, r_type = ''file''\<rparr>,
      \<lparr>r_path = ''dir/b.txt'', r_cid = ''cid:dir/b.txt'', r_size = 2, r_type = ''file''\<rparr>,
      \<lparr>r_path = ''dir'', r_cid = ''cid:dir'', r_size = 5, r_type = ''file''\<rparr>,
      \<lparr>r_path = [], r_cid = ''cid:root'', r_size = 5, r_type = ''file''\<rparr>]"
  by (simp add: run_AB addAll_AB toResult_def or_undefined_def)

lemma run_AB_typed:
  "results (calculateCIDs (stateWith [fileA, fileB] (Some (treeFs (Some ''file'') (Some ''directory''))))) =
     [\<lparr>r_path = ''dir/a.txt'', r_cid = ''cid:dir/a.txt'', r_size = 3, r_type = ''file''\<rparr>,
      \<lparr>r_path = ''dir/b.txt'', r_cid = ''cid:dir/b.txt'', r_size = 2, r_type = ''file''\<rparr>,
      \<lparr>r_path = ''dir'', r_cid = ''cid:dir'', r_size = 5, r_type = ''directory''\<rparr>,
      \<lparr>r_path = [], r_cid = ''cid:root'', r_size = 5, r_type = ''directory''\<rparr>]
   \<and> rootDirectoryCid (results (calculateCIDs
        (stateWith [fileA, fileB] (Some (treeFs (Some ''file'') (Some ''directory'')))))) =
       Some ''cid:dir''"
proof -
  let ?u = "treeFs (Some ''file'') (Some ''directory'')"
  let ?s = "stateWith [fileA, fileB] (Some ?u)"
  let ?ys = "[\<lparr>e_path = ''dir/a.txt'', e_cid = CID ''cid:dir/a.txt'', e_size = 3, e_type = Some ''file''\<rparr>,
       \<lparr>e_path = ''dir/b.txt'', e_cid = CID ''cid:dir/b.txt'', e_size = 2, e_type = Some ''file''\<rparr>,
       \<lparr>e_path = ''dir'', e_cid = CID ''cid:dir'', e_size = 5, e_type = Some ''directory''\<rparr>,
       \<lparr>e_path = [], e_cid = CID ''cid:root'', e_size = 5, e_type = Some ''directory''\<rparr>]"
  have 1: "heliaInstance ?s = Some \<lparr>fs = ?u\<rparr>" by (simp add: stateWith_def)
  have 2: "promiseAll (map readEntry (files ?s)) = Inr entriesAB"
    using read_AB by (simp add: stateWith_def)
  have 3: "length entriesAB > 1 \<or> (\<exists>f \<in> set entriesAB. CHR ''/'' \<in> set (path f))"
    by (simp add: entriesAB_def)
  have 4: "addAll (fs \<lparr>fs = ?u\<rparr>) entriesAB (kuboCompatibleOptions entriesAB) = (?ys, None)"
    by (simp add: addAll_AB)
  note t = multi_entry_output [OF 1 2 3 4]
  have r: "results (calculateCIDs ?s) = map toResult ?ys"
    using t by (rule conjunct1)
  have c: "rootDirectoryCid (results (calculateCIDs ?s)) = Some ''cid:dir''"
    by (simp add: t [THEN conjunct2, THEN conjunct2])
  show ?thesis
    unfolding c unfolding r by (simp add: toResult_def or_undefined_def or_str_def)
qed


section \<open>The claims\<close>

text \<open>
  C1. Directory wrapping is switched on exactly when there is more than one entry or
  some entry's path contains \<open>/\<close>, and that is the flag the importer receives: two
  backends that answer alike on every options object carrying this flag cannot be told
  apart by a run over these entries.
\<close>

theorem C1_wrapWithDirectory_iff:
  "wrapWithDirectory (kuboCompatibleOptions es) =
     (length es > 1 \<or> (\<exists>f \<in> set es. CHR ''/'' \<in> set (path f)))
   \<and> (\<forall>s u u'.
        files s \<noteq> [] \<and> promiseAll (map readEntry (files s)) = Inr es \<and>
        (\<forall>opts bytes x.
           wrapWithDirectory opts = (length es > 1 \<or> (\<exists>f \<in> set es. CHR ''/'' \<in> set (path f))) \<longrightarrow>
           addBytes u bytes opts = addBytes u' bytes opts \<and> addAll u x opts = addAll u' x opts)
        \<longrightarrow> results (calculateCIDs (s\<lparr>heliaInstance := Some \<lparr>fs = u\<rparr>\<rparr>)) =
            results (calculateCIDs (s\<lparr>heliaInstance := Some \<lparr>fs = u'\<rparr>\<rparr>))
          \<and> error (calculateCIDs (s\<lparr>heliaInstance := Some \<lparr>fs = u\<rparr>\<rparr>)) =
            error (calculateCIDs (s\<lparr>heliaInstance := Some \<lparr>fs = u'\<rparr>\<rparr>)))"
proof (intro conjI allI impI)
  show w: "wrapWithDirectory (kuboCompatibleOptions es) =
     (length es > 1 \<or> (\<exists>f \<in> set es. CHR ''/'' \<in> set (path f)))"
    by (rule wrap_eq)
  fix s :: state and u u' :: unixfs
  assume a: "files s \<noteq> [] \<and> promiseAll (map readEntry (files s)) = Inr es \<and>
        (\<forall>opts bytes x.
           wrapWithDirectory opts = (length es > 1 \<or> (\<exists>f \<in> set es. CHR ''/'' \<in> set (path f))) \<longrightarrow>
           addBytes u bytes opts = addBytes u' bytes opts \<and> addAll u x opts = addAll u' x opts)"
  then have eq: "importAll u es (kuboCompatibleOptions es) = importAll u' es (kuboCompatibleOptions es)"
    using w by (intro importAll_cong) blast+
  show "results (calculateCIDs (s\<lparr>heliaInstance := Some \<lparr>fs = u\<rparr>\<rparr>)) =
            results (calculateCIDs (s\<lparr>heliaInstance := Some \<lparr>fs = u'\<rparr>\<rparr>))"
    using a eq by (simp add: calc_nonempty calculateCIDs_try_def split: sum.splits)
  show "error (calculateCIDs (s\<lparr>heliaInstance := Some \<lparr>fs = u\<rparr>\<rparr>)) =
            error (calculateCIDs (s\<lparr>heliaInstance := Some \<lparr>fs = u'\<rparr>\<rparr>))"
    using a eq by (simp add: calc_nonempty calculateCIDs_try_def split: sum.splits)
qed

theorem C1_witness:
  "wrapWithDirectory (kuboCompatibleOptions entriesAB)
   \<and> results (calculateCIDs (stateWith [fileA, fileB] (Some (treeFs None None)))) =
     results (calculateCIDs (stateWith [fileA, fileB] (Some wrapOnlyFs)))"
proof -
  let ?s = "stateWith [fileA, fileB] None"
  have agree: "\<forall>opts bytes x.
      wrapWithDirectory opts =
        (length entriesAB > 1 \<or> (\<exists>f \<in> set entriesAB. CHR ''/'' \<in> set (path f))) \<longrightarrow>
      addBytes (treeFs None None) bytes opts = addBytes wrapOnlyFs bytes opts \<and>
      addAll (treeFs None None) x opts = addAll wrapOnlyFs x opts"
    by (simp add: entriesAB_def treeFs_def wrapOnlyFs_def)
  have pre: "files ?s \<noteq> [] \<and> promiseAll (map readEntry (files ?s)) = Inr entriesAB"
    using read_AB by (simp add: stateWith_def)
  have "results (calculateCIDs (?s\<lparr>heliaInstance := Some \<lparr>fs = treeFs None None\<rparr>\<rparr>)) =
        results (calculateCIDs (?s\<lparr>heliaInstance := Some \<lparr>fs = wrapOnlyFs\<rparr>\<rparr>))"
    using C1_wrapWithDirectory_iff [of entriesAB] pre agree by blast
  then show ?thesis by (simp add: stateWith_def wrap_AB)
qed

text \<open>
  C2. The claim: after a run over more than one entry or a nested path the list ends
  with one root record of kind \<open>directory\<close> and of empty or top-level path, and the root
  CID shown is that of the deepest common ancestor directory. The icons (line 314) and
  the root panel (line 348) look for records of type \<open>directory\<close>, but line 123
  takes the kind from a \<open>type\<close> field of the yielded entry and falls back to \<open>file\<close>.

  The run below is over \<open>dir/a.txt\<close> and \<open>dir/b.txt\<close> with a backend that yields the
  two files, the directory \<open>dir\<close> and the root of empty path, none of them with a
  \<open>type\<close> field. All four records, the directory and the root among them, come out
  of kind \<open>file\<close>, and the root shown is the CID of the wrapping root, not that of
  \<open>dir\<close>, the deepest common ancestor. With the same entries carrying their types
  (\<open>run_AB_typed\<close>) the list ends with the root of kind \<open>directory\<close> and the root shown
  is that of \<open>dir\<close>.
\<close>

theorem C2_untyped_backend_run:
  "length (files (stateWith [fileA, fileB] (Some (treeFs None None)))) > 1
   \<and> map r_path (results (calculateCIDs (stateWith [fileA, fileB] (Some (treeFs None None))))) =
       [''dir/a.txt'', ''dir/b.txt'', ''dir'', []]
   \<and> map r_type (results (calculateCIDs (stateWith [fileA, fileB] (Some (treeFs None None))))) =
       [''file'', ''file'', ''file'', ''file'']
   \<and> r_type (last (results (calculateCIDs (stateWith [fileA, fileB] (Some (treeFs None None)))))) \<noteq>
       ''directory''
   \<and> rootDirectoryCid (results (calculateCIDs (stateWith [fileA, fileB] (Some (treeFs None None))))) =
       Some ''cid:root''
   \<and> r_cid (results (calculateCIDs (stateWith [fileA, fileB] (Some (treeFs None None)))) ! 2) =
       ''cid:dir''"
proof -
  have f: "length (files (stateWith [fileA, fileB] (Some (treeFs None None)))) > 1"
    by (simp add: stateWith_def)
  show ?thesis
    unfolding run_AB_untyped using f
    by (simp add: rootDirectoryCid_def isRootCandidate_def or_undefined_def or_str_def)
qed




text \<open>
  C4. A run that has passed the check for no files ends in one of two ways: with an
  error text and an empty result list, or with no error and the complete list of
  records of the import. A file that cannot be read, an \<open>addBytes\<close> that rejects and
  an \<open>addAll\<close> that throws after yielding some entries each leave the result list
  empty and the error text \<open>Error calculating CIDs: \<close> followed by the error.
\<close>

theorem C4_all_or_nothing:
  fixes s :: state
  assumes "files s \<noteq> []"
  shows "((error (calculateCIDs s) \<noteq> [] \<and> results (calculateCIDs s) = []) \<or>
          (error (calculateCIDs s) = [] \<and>
           (\<exists>inst es rs. heliaInstance s = Some inst \<and>
              promiseAll (map readEntry (files s)) = Inr es \<and>
              importAll (fs inst) es (kuboCompatibleOptions es) = Inr rs \<and>
              results (calculateCIDs s) = rs)))
       \<and> (\<forall>inst err. heliaInstance s = Some inst \<and>
             promiseAll (map readEntry (files s)) = Inl err \<longrightarrow>
             error (calculateCIDs s) = ''Error calculating CIDs: '' @ err \<and>
             results (calculateCIDs s) = [])
       \<and> (\<forall>inst e err. heliaInstance s = Some inst \<and>
             promiseAll (map readEntry (files s)) = Inr [e] \<and> CHR ''/'' \<notin> set (path e) \<and>
             addBytes (fs inst) (content e) (kuboCompatibleOptions [e]) = Inl err \<longrightarrow>
             error (calculateCIDs s) = ''Error calculating CIDs: '' @ err \<and>
             results (calculateCIDs s) = [])
       \<and> (\<forall>inst es yielded err. heliaInstance s = Some inst \<and>
             promiseAll (map readEntry (files s)) = Inr es \<and>
             (length es > 1 \<or> (\<exists>f \<in> set es. CHR ''/'' \<in> set (path f))) \<and>
             addAll (fs inst) es (kuboCompatibleOptions es) = (yielded, Some err) \<longrightarrow>
             error (calculateCIDs s) = ''Error calculating CIDs: '' @ err \<and>
             results (calculateCIDs s) = [])"
proof (intro conjI allI impI)
  show "(error (calculateCIDs s) \<noteq> [] \<and> results (calculateCIDs s) = []) \<or>
          (error (calculateCIDs s) = [] \<and>
           (\<exists>inst es rs. heliaInstance s = Some inst \<and>
              promiseAll (map readEntry (files s)) = Inr es \<and>
              importAll (fs inst) es (kuboCompatibleOptions es) = Inr rs \<and>
              results (calculateCIDs s) = rs))"
  proof (cases "heliaInstance s")
    case None
    then show ?thesis using assms by (simp add: calc_not_ready)
  next
    case (Some inst)
    show ?thesis
    proof (cases "promiseAll (map readEntry (files s))")
      case (Inl err)
      then show ?thesis using assms Some by (simp add: calc_read_error)
    next
      case (Inr es)
      show ?thesis
      proof (cases "importAll (fs inst) es (kuboCompatibleOptions es)")
        case (Inl err)
        then show ?thesis using assms Some Inr by (simp add: calc_import_error)
      next
        case (Inr rs)
        then show ?thesis using assms Some \<open>promiseAll (map readEntry (files s)) = Inr es\<close>
          by (simp add: calc_success)
      qed
    qed
  qed
next
  fix inst err
  assume "heliaInstance s = Some inst \<and> promiseAll (map readEntry (files s)) = Inl err"
  then have "calculateCIDs s =
      s\<lparr>isProcessing := False, error := ''Error calculating CIDs: '' @ err, results := []\<rparr>"
    using assms by (intro calc_read_error) auto
  then show "error (calculateCIDs s) = ''Error calculating CIDs: '' @ err"
    and "results (calculateCIDs s) = []" by simp_all
next
  fix inst e err
  assume a: "heliaInstance s = Some inst \<and>
             promiseAll (map readEntry (files s)) = Inr [e] \<and> CHR ''/'' \<notin> set (path e) \<and>
             addBytes (fs inst) (content e) (kuboCompatibleOptions [e]) = Inl err"
  then have "importAll (fs inst) [e] (kuboCompatibleOptions [e]) = Inl err"
    by (simp add: single_importAll)
  then have "calculateCIDs s =
      s\<lparr>isProcessing := False, error := ''Error calculating CIDs: '' @ err, results := []\<rparr>"
    using assms a by (intro calc_import_error) auto
  then show "error (calculateCIDs s) = ''Error calculating CIDs: '' @ err"
    and "results (calculateCIDs s) = []" by simp_all
next
  fix inst es yielded err
  assume a: "heliaInstance s = Some inst \<and>
             promiseAll (map readEntry (files s)) = Inr es \<and>
             (length es > 1 \<or> (\<exists>f \<in> set es. CHR ''/'' \<in> set (path f))) \<and>
             addAll (fs inst) es (kuboCompatibleOptions es) = (yielded, Some err)"
  then have "importAll (fs inst) es (kuboCompatibleOptions es) = Inl err"
    by (simp add: multi_importAll)
  then have "calculateCIDs s =
      s\<lparr>isProcessing := False, error := ''Error calculating CIDs: '' @ err, results := []\<rparr>"
    using assms a by (intro calc_import_error) auto
  then show "error (calculateCIDs s) = ''Error calculating CIDs: '' @ err"
    and "results (calculateCIDs s) = []" by simp_all
qed

theorem C4_witness:
  "files (stateWith [fileA, fileB] (Some failingFs)) \<noteq> []
   \<and> fst (addAll failingFs entriesAB (kuboCompatibleOptions entriesAB)) \<noteq> []
   \<and> error (calculateCIDs (stateWith [fileA, fileB] (Some failingFs))) =
       ''Error calculating CIDs: Error: put failed''
   \<and> results (calculateCIDs (stateWith [fileA, fileB] (Some failingFs))) = []
   \<and> error (calculateCIDs (stateWith [fileA, fileUnreadable] (Some (treeFs None None)))) =
       ''Error calculating CIDs: NotReadableError''
   \<and> results (calculateCIDs (stateWith [fileA, fileUnreadable] (Some (treeFs None None)))) = []"
proof -
  let ?t = "stateWith [fileA, fileUnreadable] (Some (treeFs None None))"
  have ne': "files ?t \<noteq> []" by (simp add: stateWith_def)
  have h': "heliaInstance ?t = Some \<lparr>fs = treeFs None None\<rparr> \<and>
      promiseAll (map readEntry (files ?t)) = Inl ''NotReadableError''"
    by (simp add: stateWith_def promiseAll_def readEntry_def fileA_def fileUnreadable_def)
  from C4_all_or_nothing [OF ne'] h'
  have unreadable: "error (calculateCIDs ?t) = ''Error calculating CIDs: '' @ ''NotReadableError'' \<and>
        results (calculateCIDs ?t) = []"
    by blast
  let ?s = "stateWith [fileA, fileB] (Some failingFs)"
  have ne: "files ?s \<noteq> []" by (simp add: stateWith_def)
  have h: "heliaInstance ?s = Some \<lparr>fs = failingFs\<rparr> \<and>
      promiseAll (map readEntry (files ?s)) = Inr entriesAB \<and>
      (length entriesAB > 1 \<or> (\<exists>f \<in> set entriesAB. CHR ''/'' \<in> set (path f))) \<and>
      addAll (fs \<lparr>fs = failingFs\<rparr>) entriesAB (kuboCompatibleOptions entriesAB) =
        (map (entryOf None) (take 1 entriesAB), Some ''Error: put failed'')"
    using read_AB by (simp add: stateWith_def failingFs_def entriesAB_def)
  have y: "fst (addAll failingFs entriesAB (kuboCompatibleOptions entriesAB)) \<noteq> []"
    by (simp add: failingFs_def entriesAB_def)
  from C4_all_or_nothing [OF ne] h
  have "error (calculateCIDs ?s) = ''Error calculating CIDs: '' @ ''Error: put failed'' \<and>
        results (calculateCIDs ?s) = []"
    by blast
  then show ?thesis using ne y unreadable by simp
qed

text \<open>
  C5. A run started with files selected while \<open>heliaInstance\<close> is still \<open>null\<close>
  returns at once with the not-ready message, which differs from the input error and
  from every text of the \<open>catch\<close> block, and with an empty result list. Nothing is
  retried inside; once the instance is set, a new call behaves as a first call.
\<close>

theorem C5_backend_not_ready:
  fixes s :: state
  assumes "files s \<noteq> []" and "heliaInstance s = None"
  shows "calculateCIDs s =
           s\<lparr>isProcessing := False,
             error := ''Helia is still initializing. Please wait a moment and try again.'',
             results := []\<rparr>
       \<and> error (calculateCIDs s) \<noteq> ''Please select files first''
       \<and> (\<forall>err. error (calculateCIDs s) \<noteq> ''Error calculating CIDs: '' @ err)
       \<and> (\<forall>inst. calculateCIDs (initHelia (Inr inst) (calculateCIDs s)) =
                   calculateCIDs (initHelia (Inr inst) s))"
proof -
  let ?m = "''Helia is still initializing. Please wait a moment and try again.''"
  have c: "calculateCIDs s = s\<lparr>isProcessing := False, error := ?m, results := []\<rparr>"
    using assms by (rule calc_not_ready)
  have r: "calculateCIDs (initHelia (Inr inst) (calculateCIDs s)) =
           calculateCIDs (initHelia (Inr inst) s)" for inst
    unfolding c using assms(1)
    by (simp add: initHelia_def calc_nonempty calculateCIDs_try_def split: sum.splits)
  show ?thesis using c r by simp
qed

theorem C5_witness:
  "files (stateWith [fileA, fileB] None) \<noteq> []
   \<and> heliaInstance (stateWith [fileA, fileB] None) = None
   \<and> error (calculateCIDs (stateWith [fileA, fileB] None)) =
       ''Helia is still initializing. Please wait a moment and try again.''
   \<and> results (calculateCIDs (stateWith [fileA, fileB] None)) = []
   \<and> calculateCIDs (initHelia (Inr \<lparr>fs = treeFs None None\<rparr>)
        (calculateCIDs (stateWith [fileA, fileB] None))) =
     calculateCIDs (stateWith [fileA, fileB] (Some (treeFs None None)))"
proof -
  let ?s = "stateWith [fileA, fileB] None"
  have 1: "files ?s \<noteq> []" and 2: "heliaInstance ?s = None" by (simp_all add: stateWith_def)
  have i: "initHelia (Inr \<lparr>fs = treeFs None None\<rparr>) ?s =
           stateWith [fileA, fileB] (Some (treeFs None None))"
    by (simp add: initHelia_def stateWith_def)
  note t = C5_backend_not_ready [OF 1 2]
  have c: "calculateCIDs ?s =
      ?s\<lparr>isProcessing := False,
         error := ''Helia is still initializing. Please wait a moment and try again.'',
         results := []\<rparr>"
    using t by (rule conjunct1)
  have "\<forall>inst. calculateCIDs (initHelia (Inr inst) (calculateCIDs ?s)) =
                calculateCIDs (initHelia (Inr inst) ?s)"
    using t by blast
  then have r: "calculateCIDs (initHelia (Inr \<lparr>fs = treeFs None None\<rparr>) (calculateCIDs ?s)) =
                calculateCIDs (stateWith [fileA, fileB] (Some (treeFs None None)))"
    unfolding i [symmetric] by (rule spec)
  have e: "error (calculateCIDs ?s) =
      ''Helia is still initializing. Please wait a moment and try again.''"
    and n: "results (calculateCIDs ?s) = []"
    unfolding c by simp_all
  show ?thesis using 1 2 e n r by blast
qed

text \<open>
  C6. With no input entries \<open>calculateCIDs\<close> only sets the input error: the result
  list and the processing flag are untouched and the backend is not consulted.
\<close>

theorem C6_no_files:
  "files s = [] \<Longrightarrow>
     calculateCIDs s = s\<lparr>error := ''Please select files first''\<rparr>
   \<and> results (calculateCIDs s) = results s
   \<and> isProcessing (calculateCIDs s) = isProcessing s"
  by (simp add: calculateCIDs_def)

theorem C6_witness:
  "files (stateWith [] None) = []
   \<and> calculateCIDs (stateWith [] None) =
       \<lparr>files = [], results = [], isProcessing = False,
        error = ''Please select files first'', heliaInstance = None\<rparr>"
  using C6_no_files [of "stateWith [] None"] by (simp add: stateWith_def)

text \<open>
  C7. The chunk size handed to the backend is 262144, and the chunker of the spec
  cuts a file of length \<open>L\<close> into \<open>ceil (L / 262144)\<close> chunks, except that the empty
  file gives exactly one empty chunk; the chunks put together are the file.
\<close>

theorem C7_chunk_count:
  "maxChunkSize (chunkerOptions (kuboCompatibleOptions es)) = 262144
   \<and> length (chunker (maxChunkSize (chunkerOptions (kuboCompatibleOptions es))) bytes) =
       (if length bytes = 0 then 1 else nat \<lceil>real (length bytes) / 262144\<rceil>)
   \<and> (length bytes = 0 \<longrightarrow>
        chunker (maxChunkSize (chunkerOptions (kuboCompatibleOptions es))) bytes = [[]])
   \<and> concat (chunker (maxChunkSize (chunkerOptions (kuboCompatibleOptions es))) bytes) = bytes"
proof -
  have m: "maxChunkSize (chunkerOptions (kuboCompatibleOptions es)) = 262144"
    by (simp add: kuboCompatibleOptions_def)
  have c: "length (chunker 262144 bytes) =
       (if length bytes = 0 then 1 else nat \<lceil>real (length bytes) / 262144\<rceil>)"
    using chunker_count_ceil [of 262144 bytes] by simp
  have e: "length bytes = 0 \<longrightarrow> chunker 262144 bytes = [[]]"
    by (subst chunker.simps) simp
  show ?thesis unfolding m using c e chunker_concat by simp
qed

theorem C7_witness:
  "length (chunker (maxChunkSize (chunkerOptions (kuboCompatibleOptions entriesAB))) []) = 1
   \<and> chunker (maxChunkSize (chunkerOptions (kuboCompatibleOptions entriesAB))) [] = [[]]
   \<and> length (chunker (maxChunkSize (chunkerOptions (kuboCompatibleOptions entriesAB)))
        (replicate 262144 7)) = 1
   \<and> length (chunker (maxChunkSize (chunkerOptions (kuboCompatibleOptions entriesAB)))
        (replicate 262145 7)) = 2"
proof -
  have m: "maxChunkSize (chunkerOptions (kuboCompatibleOptions entriesAB)) = 262144"
    using C7_chunk_count [of entriesAB "[]"] by (rule conjunct1)
  show ?thesis
    unfolding m
    using C7_chunk_count [of entriesAB "[]", unfolded m]
      C7_chunk_count [of entriesAB "replicate 262144 7", unfolded m]
      C7_chunk_count [of entriesAB "replicate 262145 7", unfolded m]
    by simp
qed

text \<open>
  C9, as the code has it. In the branch through \<open>addAll\<close> every published record's kind
  is the entry's \<open>type\<close> when that is a non-empty text, and \<open>file\<close> when the field is
  missing or is the empty text (\<open>||\<close> tests truthiness, not presence). So an entry
  yielded without a \<open>type\<close> is labelled \<open>file\<close>, directory node or not.
\<close>

theorem C9_record_kind:
  fixes s :: state
  assumes "heliaInstance s = Some inst"
    and "promiseAll (map readEntry (files s)) = Inr es"
    and "length es > 1 \<or> (\<exists>f \<in> set es. CHR ''/'' \<in> set (path f))"
    and "addAll (fs inst) es (kuboCompatibleOptions es) = (yielded, None)"
  shows "length (results (calculateCIDs s)) = length yielded
       \<and> (\<forall>i < length yielded.
            r_type (results (calculateCIDs s) ! i) =
              (case e_type (yielded ! i) of
                 None \<Rightarrow> ''file''
               | Some t \<Rightarrow> if t = [] then ''file'' else t))"
proof -
  have r: "results (calculateCIDs s) = map toResult yielded"
    using calc_multi_success [OF assms] by simp
  show ?thesis unfolding r
    by (simp add: toResult_def or_undefined_def or_str_def split: option.splits)
qed

theorem C9_witness:
  "map r_type (results (calculateCIDs
      (stateWith [fileA, fileB] (Some (treeFs None (Some ''directory'')))))) =
     [''file'', ''file'', ''directory'', ''directory'']"
proof -
  let ?u = "treeFs None (Some ''directory'')"
  let ?s = "stateWith [fileA, fileB] (Some ?u)"
  let ?ys = "[\<lparr>e_path = ''dir/a.txt'', e_cid = CID ''cid:dir/a.txt'', e_size = 3, e_type = None\<rparr>,
       \<lparr>e_path = ''dir/b.txt'', e_cid = CID ''cid:dir/b.txt'', e_size = 2, e_type = None\<rparr>,
       \<lparr>e_path = ''dir'', e_cid = CID ''cid:dir'', e_size = 5, e_type = Some ''directory''\<rparr>,
       \<lparr>e_path = [], e_cid = CID ''cid:root'', e_size = 5, e_type = Some ''directory''\<rparr>]"
  have 1: "heliaInstance ?s = Some \<lparr>fs = ?u\<rparr>" by (simp add: stateWith_def)
  have 2: "promiseAll (map readEntry (files ?s)) = Inr entriesAB"
    using read_AB by (simp add: stateWith_def)
  have 3: "length entriesAB > 1 \<or> (\<exists>f \<in> set entriesAB. CHR ''/'' \<in> set (path f))"
    by (simp add: entriesAB_def)
  have 4: "addAll (fs \<lparr>fs = ?u\<rparr>) entriesAB (kuboCompatibleOptions entriesAB) = (?ys, None)"
    by (simp add: addAll_AB)
  note t = C9_record_kind [OF 1 2 3 4]
  have len: "length (results (calculateCIDs ?s)) = 4" using t by simp
  have "\<forall>i < 4. r_type (results (calculateCIDs ?s) ! i) =
      (case e_type (?ys ! i) of None \<Rightarrow> ''file'' | Some t \<Rightarrow> if t = [] then ''file'' else t)"
    using t by simp
  then have "r_type (results (calculateCIDs ?s) ! 0) = ''file''"
    "r_type (results (calculateCIDs ?s) ! 1) = ''file''"
    "r_type (results (calculateCIDs ?s) ! 2) = ''directory''"
    "r_type (results (calculateCIDs ?s) ! 3) = ''directory''"
    by simp_all
  then show ?thesis using len
    by (intro nth_equalityI) (auto simp: less_Suc_eq numeral_eq_Suc)
qed

theorem C9_counterexample:
  "fst (addAll (treeFs (Some []) (Some ''directory'')) entriesAB (kuboCompatibleOptions entriesAB)) ! 0 =
     \<lparr>e_path = ''dir/a.txt'', e_cid = CID ''cid:dir/a.txt'', e_size = 3, e_type = Some []\<rparr>
   \<and> results (calculateCIDs (stateWith [fileA, fileB] (Some (treeFs (Some []) (Some ''directory''))))) ! 0 =
     \<lparr>r_path = ''dir/a.txt'', r_cid = ''cid:dir/a.txt'', r_size = 3, r_type = ''file''\<rparr>"
  by (simp add: run_AB addAll_AB toResult_def or_undefined_def or_str_def)

text \<open>
  C10. Once the check for no files is passed, \<open>calculateCIDs\<close> returns with the
  processing flag false, whatever the backend and the files do: on success, on any
  thrown error and on the early return for a backend that is not ready.
\<close>

theorem C10_isProcessing_reset:
  "files s \<noteq> [] \<Longrightarrow> isProcessing (calculateCIDs s) = False"
  by (simp add: calc_nonempty calculateCIDs_try_def split: sum.splits option.splits)

theorem C10_witness:
  "files (stateWith [fileA, fileB] None) \<noteq> []
   \<and> \<not> isProcessing (calculateCIDs (stateWith [fileA, fileB] None))
   \<and> \<not> isProcessing (calculateCIDs (stateWith [fileA, fileB] (Some failingFs)))
   \<and> \<not> isProcessing (calculateCIDs (stateWith [fileA, fileB] (Some (treeFs None None))))"
  using C10_isProcessing_reset [of "stateWith [fileA, fileB] None"]
    C10_isProcessing_reset [of "stateWith [fileA, fileB] (Some failingFs)"]
    C10_isProcessing_reset [of "stateWith [fileA, fileB] (Some (treeFs None None))"]
  by (simp add: stateWith_def)

end
